theory Spec2Isabelle
  imports Complex_Main
begin

section \<open>Values of the payment backend\<close>

text \<open>
  The backend is the Express/MongoDB server with the routes
  \<^verbatim>\<open>/api/payment/initialize\<close> and \<^verbatim>\<open>/api/webhook/paystack\<close> and the helpers
  \<^verbatim>\<open>calculateExpiryDate\<close>, \<^verbatim>\<open>createOrUpdateCustomer\<close>, \<^verbatim>\<open>createTransaction\<close>,
  \<^verbatim>\<open>createOrUpdateActiveUser\<close>, \<^verbatim>\<open>handleSuccessfulPayment\<close> and
  \<^verbatim>\<open>handleFailedPayment\<close>.

  A JavaScript \<^verbatim>\<open>number\<close> is used by the code only through \<^verbatim>\<open>===\<close>, \<^verbatim>\<open><=\<close>,
  \<^verbatim>\<open>isNaN\<close> and truthiness, so it is modelled by its value: a rational (every finite
  double is one), the two infinities, or NaN.
\<close>

datatype number = NaN | NegInfinity | Num rat | PosInfinity

text \<open>\<^verbatim>\<open>isNaN(x)\<close>, \<^verbatim>\<open>x <= 0\<close>, \<^verbatim>\<open>x > 0\<close> and \<^verbatim>\<open>!x\<close> on numbers.\<close>

fun isNaN :: "number \<Rightarrow> bool" where
  "isNaN NaN = True"
| "isNaN _ = False"

fun le_zero :: "number \<Rightarrow> bool" where
  "le_zero NaN = False"
| "le_zero NegInfinity = True"
| "le_zero (Num q) = (q \<le> 0)"
| "le_zero PosInfinity = False"

fun gt_zero :: "number \<Rightarrow> bool" where
  "gt_zero NaN = False"
| "gt_zero NegInfinity = False"
| "gt_zero (Num q) = (0 < q)"
| "gt_zero PosInfinity = True"

fun falsy_number :: "number \<Rightarrow> bool" where
  "falsy_number NaN = True"
| "falsy_number (Num q) = (q = 0)"
| "falsy_number _ = False"

section \<open>Dates\<close>

text \<open>
  A \<^verbatim>\<open>Date\<close> object holds a time value: a whole number of milliseconds since the
  epoch, of magnitude at most 8640000000000000, or NaN (an invalid date). The type
  \<open>date\<close> is the time value of a valid date, as \<^verbatim>\<open>new Date()\<close> and the payment date of
  an event have it; \<open>Date\<close> is a date that may be invalid, as \<^verbatim>\<open>setDate\<close> can leave it.
\<close>

type_synonym date = int

datatype Date = InvalidDate | TimeValue int

definition msPerDay :: int where
  "msPerDay = 86400000"

definition maxTime :: int where
  "maxTime = 8640000000000000"

definition valid_time :: "int \<Rightarrow> bool" where
  "valid_time t = (- maxTime \<le> t \<and> t \<le> maxTime)"

text \<open>The abstract operations of the language on time values.\<close>

definition TimeClip :: "int \<Rightarrow> Date" where
  "TimeClip t = (if valid_time t then TimeValue t else InvalidDate)"

definition Day :: "int \<Rightarrow> int" where
  "Day t = t div msPerDay"

definition TimeWithinDay :: "int \<Rightarrow> int" where
  "TimeWithinDay t = t mod msPerDay"

definition MakeDate :: "int \<Rightarrow> int \<Rightarrow> int" where
  "MakeDate day time = day * msPerDay + time"

text \<open>
  The calendar is the proleptic Gregorian one. \<open>day_in_month d\<close> is the day of the
  month, counted from 0, of day number \<open>d\<close> (days since the epoch), computed over years
  that begin on 1 March in eras of 400 years. \<open>DateFromTime\<close> is the day of the month
  counted from 1, and \<open>MakeDay_in_month t dt\<close> is
  \<^verbatim>\<open>MakeDay(YearFromTime(t), MonthFromTime(t), dt)\<close>: the day number of the first day of
  the month of \<open>t\<close>, plus \<open>dt - 1\<close>; a day beyond the end of the month runs on into the
  next months.
\<close>

definition day_in_month :: "int \<Rightarrow> int" where
  "day_in_month d =
     (let z = d + 719468;
          doe = z mod 146097;
          yoe = (doe - doe div 1460 + doe div 36524 - doe div 146096) div 365;
          doy = doe - (365 * yoe + yoe div 4 - yoe div 100);
          mp = (5 * doy + 2) div 153
      in doy - (153 * mp + 2) div 5)"

definition DateFromTime :: "int \<Rightarrow> int" where
  "DateFromTime t = day_in_month (Day t) + 1"

definition MakeDay_in_month :: "int \<Rightarrow> int \<Rightarrow> int" where
  "MakeDay_in_month t dt = (Day t - day_in_month (Day t)) + dt - 1"

text \<open>
  The time zone belongs to the host. \<open>LocalTime\<close> takes a time value to local time and
  \<open>UTC\<close> takes a local time back; in a zone whose offset changes the two are not
  inverse to each other across the change.
\<close>

record timezone =
  LocalTime :: "int \<Rightarrow> int"
  UTC :: "int \<Rightarrow> int"

text \<open>
  \<^verbatim>\<open>getDate()\<close> is NaN (here \<open>None\<close>) on an invalid date and the local day of the month
  otherwise. \<^verbatim>\<open>setDate(dt)\<close> leaves an invalid date invalid, makes the date invalid when
  \<open>dt\<close> is NaN, and otherwise moves the date to day \<open>dt\<close> of its local month at the same
  local time of day, clipped to the range of time values.
\<close>

definition getDate :: "timezone \<Rightarrow> Date \<Rightarrow> int option" where
  "getDate tz d =
     (case d of
        InvalidDate \<Rightarrow> None
      | TimeValue t \<Rightarrow> Some (DateFromTime (LocalTime tz t)))"

definition setDate :: "timezone \<Rightarrow> Date \<Rightarrow> int option \<Rightarrow> Date" where
  "setDate tz d dt =
     (case d of
        InvalidDate \<Rightarrow> InvalidDate
      | TimeValue t \<Rightarrow>
          (case dt of
             None \<Rightarrow> InvalidDate
           | Some n \<Rightarrow>
               (let lt = LocalTime tz t
                in TimeClip (UTC tz (MakeDate (MakeDay_in_month lt n) (TimeWithinDay lt))))))"

text \<open>
  Whether the zone has, \<open>n\<close> days after \<open>t\<close> in local time, the offset it has at \<open>t\<close>.
\<close>

definition same_offset :: "timezone \<Rightarrow> int \<Rightarrow> int \<Rightarrow> bool" where
  "same_offset tz t n = (UTC tz (LocalTime tz t + n * msPerDay) = t + n * msPerDay)"

text \<open>
  Two zones for concrete dates: a host running in UTC, and America/New_York around its
  change of 10 March 2024 at 07:00 UTC (1710054000000), five hours behind UTC before it
  and four hours behind from then on; a local time in the skipped hour is read with the
  earlier offset.
\<close>

definition utc_zone :: timezone where
  "utc_zone = \<lparr>LocalTime = (\<lambda>t. t), UTC = (\<lambda>t. t)\<rparr>"

definition new_york_march_2024 :: timezone where
  "new_york_march_2024 =
     \<lparr>LocalTime = (\<lambda>t. if t < 1710054000000 then t - 18000000 else t - 14400000),
      UTC = (\<lambda>t. if t < 1710054000000 - 14400000 then t + 18000000 else t + 14400000)\<rparr>"

section \<open>The expiry calculator\<close>

text \<open>
  \<^verbatim>\<open>
  function calculateExpiryDate(amount: number, paidDate: Date = new Date()): Date {
    let days: number = 1;
    if (amount === 500) { days = 1; }
    else if (amount === 11000) { days = 30; }
    else if (amount === 25000) { days = 90; }
    const expiryDate = new Date(paidDate);
    expiryDate.setDate(expiryDate.getDate() + days);
    return expiryDate;
  }
  \<close>
  \<^verbatim>\<open>new Date(paidDate)\<close> copies the time value, clipped to the range.
\<close>

definition tier_days :: "number \<Rightarrow> int" where
  "tier_days amt =
     (if amt = Num 500 then 1
      else if amt = Num 11000 then 30
      else if amt = Num 25000 then 90
      else 1)"

definition calculateExpiryDate :: "timezone \<Rightarrow> number \<Rightarrow> date \<Rightarrow> Date" where
  "calculateExpiryDate tz amt paidDate =
     (let days = tier_days amt;
          expiryDate = TimeClip paidDate
      in setDate tz expiryDate (map_option (\<lambda>d. d + days) (getDate tz expiryDate)))"

section \<open>The record store\<close>

text \<open>
  The three collections hold documents of the interfaces \<^verbatim>\<open>Customer\<close>,
  \<^verbatim>\<open>Transaction\<close> and \<^verbatim>\<open>ActiveUser\<close>. A collection is the list of its documents in
  insertion order.
\<close>

record Customer =
  c_email :: string
  createdAt :: date
  updatedAt :: date

record Transaction =
  t_email :: string
  t_paid_on :: date
  t_expires_on :: Date
  t_service :: string
  t_amount :: number

record ActiveUser =
  a_email :: string
  a_paid_on :: date
  a_expires_on :: Date
  a_service :: string

record db =
  customersCollection :: "Customer list"
  transactionsCollection :: "Transaction list"
  active_users :: "ActiveUser list"

definition empty_db :: db where
  "empty_db = \<lparr>customersCollection = [], transactionsCollection = [], active_users = []\<rparr>"

text \<open>
  What a driver call can throw: the server's duplicate-key error (code 11000), its
  document-validation error (code 121), any other storage failure (connection lost,
  timeout), and JavaScript's \<^verbatim>\<open>TypeError\<close> for a property read on
  \<^verbatim>\<open>undefined\<close>.
\<close>

datatype error = DuplicateKey | DocumentValidationFailure | StoreFailure | TypeError

text \<open>
  Storage failures come from outside the program. Each driver call of the reconciliation
  is named, and \<open>faults\<close> says which of them fail.
\<close>

datatype dbop =
  CustomerInsert | CustomerUpdate | CustomerFind
  | TransactionInsert
  | ActiveInsert | ActiveUpdate | ActiveFind

type_synonym faults = "dbop \<Rightarrow> bool"

definition no_faults :: faults where
  "no_faults = (\<lambda>_. False)"

subsection \<open>Validation rules\<close>

text \<open>
  \<^verbatim>\<open>createValidationRules\<close> installs a \<^verbatim>\<open>$jsonSchema\<close> validator on each collection.
  The \<^verbatim>\<open>email\<close> of all three must match
  \<^verbatim>\<open>^[a-zA-Z0-9._%+-]+@[a-zA-Z0-9.-]+\.[a-zA-Z]{2,}$\<close>, read as anchored at both ends;
  the \<^verbatim>\<open>amount\<close> of a transaction has \<^verbatim>\<open>minimum: 0\<close>. The other rules (dates are
  dates, the service is a string) hold of every document of the types above.

  Neither character class contains \<^verbatim>\<open>@\<close> and the last class contains no dot, so a
  match splits the string at its first \<^verbatim>\<open>@\<close> and the rest at its last dot.
\<close>

definition letters :: string where
  "letters = ''abcdefghijklmnopqrstuvwxyzABCDEFGHIJKLMNOPQRSTUVWXYZ''"

definition digits :: string where
  "digits = ''0123456789''"

definition local_char :: "char \<Rightarrow> bool" where
  "local_char c = (c \<in> set (letters @ digits @ ''._%+-''))"

definition domain_char :: "char \<Rightarrow> bool" where
  "domain_char c = (c \<in> set (letters @ digits @ ''.-''))"

definition letter_char :: "char \<Rightarrow> bool" where
  "letter_char c = (c \<in> set letters)"

definition email_pattern :: "string \<Rightarrow> bool" where
  "email_pattern s =
     (let local_part = takeWhile (\<lambda>c. c \<noteq> CHR ''@'') s;
          rest = dropWhile (\<lambda>c. c \<noteq> CHR ''@'') s
      in case rest of
           [] \<Rightarrow> False
         | _ # host \<Rightarrow>
             (let tld = rev (takeWhile (\<lambda>c. c \<noteq> CHR ''.'') (rev host));
                  before_tld = dropWhile (\<lambda>c. c \<noteq> CHR ''.'') (rev host)
              in case before_tld of
                   [] \<Rightarrow> False
                 | _ # rdomain \<Rightarrow>
                     local_part \<noteq> [] \<and> list_all local_char local_part
                     \<and> rdomain \<noteq> [] \<and> list_all domain_char rdomain
                     \<and> 2 \<le> length tld \<and> list_all letter_char tld))"

fun minimum_zero :: "number \<Rightarrow> bool" where
  "minimum_zero NaN = False"
| "minimum_zero NegInfinity = False"
| "minimum_zero (Num q) = (0 \<le> q)"
| "minimum_zero PosInfinity = True"

definition customer_validator :: "Customer \<Rightarrow> bool" where
  "customer_validator c = email_pattern (c_email c)"

definition transaction_validator :: "Transaction \<Rightarrow> bool" where
  "transaction_validator t = (email_pattern (t_email t) \<and> minimum_zero (t_amount t))"

definition active_validator :: "ActiveUser \<Rightarrow> bool" where
  "active_validator a = email_pattern (a_email a)"

subsection \<open>Driver calls\<close>

text \<open>
  \<^verbatim>\<open>createIndexes\<close> declares the \<^verbatim>\<open>email\<close> index of \<^verbatim>\<open>customers\<close> with
  \<^verbatim>\<open>{ unique: true }\<close>; the indexes of \<^verbatim>\<open>transactions\<close> and of \<^verbatim>\<open>active\<close> are
  declared without it. So only an insert into \<^verbatim>\<open>customers\<close> can fail with a duplicate
  key. The calls below are those of the store as \<^verbatim>\<open>connectDB\<close> leaves it, with these
  indexes and the validators above in force. Every call returns the store with its
  outcome, since a call that throws after an earlier write leaves that write in place.
\<close>

fun update_first :: "('a \<Rightarrow> bool) \<Rightarrow> ('a \<Rightarrow> 'a) \<Rightarrow> 'a list \<Rightarrow> 'a list" where
  "update_first p f [] = []"
| "update_first p f (x # xs) = (if p x then f x # xs else x # update_first p f xs)"

definition customers_insertOne :: "bool \<Rightarrow> Customer \<Rightarrow> db \<Rightarrow> (error + unit) \<times> db" where
  "customers_insertOne fault c s =
     (if fault then (Inl StoreFailure, s)
      else if \<not> customer_validator c then (Inl DocumentValidationFailure, s)
      else if c_email c \<in> set (map c_email (customersCollection s)) then (Inl DuplicateKey, s)
      else (Inr (), s\<lparr>customersCollection := customersCollection s @ [c]\<rparr>))"

text \<open>\<^verbatim>\<open>updateOne({ email }, { $set: { updatedAt: now } })\<close>: the first match, if any.\<close>

definition customers_updateOne :: "bool \<Rightarrow> string \<Rightarrow> date \<Rightarrow> db \<Rightarrow> (error + unit) \<times> db" where
  "customers_updateOne fault e now s =
     (if fault then (Inl StoreFailure, s)
      else case find (\<lambda>c. c_email c = e) (customersCollection s) of
             None \<Rightarrow> (Inr (), s)
           | Some c \<Rightarrow>
               if \<not> customer_validator (c\<lparr>updatedAt := now\<rparr>)
               then (Inl DocumentValidationFailure, s)
               else (Inr (), s\<lparr>customersCollection :=
                       update_first (\<lambda>c. c_email c = e) (\<lambda>c. c\<lparr>updatedAt := now\<rparr>)
                         (customersCollection s)\<rparr>))"

definition customers_findOne :: "bool \<Rightarrow> string \<Rightarrow> db \<Rightarrow> (error + Customer option) \<times> db" where
  "customers_findOne fault e s =
     (if fault then (Inl StoreFailure, s)
      else (Inr (find (\<lambda>c. c_email c = e) (customersCollection s)), s))"

definition transactions_insertOne :: "bool \<Rightarrow> Transaction \<Rightarrow> db \<Rightarrow> (error + unit) \<times> db" where
  "transactions_insertOne fault t s =
     (if fault then (Inl StoreFailure, s)
      else if \<not> transaction_validator t then (Inl DocumentValidationFailure, s)
      else (Inr (), s\<lparr>transactionsCollection := transactionsCollection s @ [t]\<rparr>))"

definition active_insertOne :: "bool \<Rightarrow> ActiveUser \<Rightarrow> db \<Rightarrow> (error + unit) \<times> db" where
  "active_insertOne fault a s =
     (if fault then (Inl StoreFailure, s)
      else if \<not> active_validator a then (Inl DocumentValidationFailure, s)
      else (Inr (), s\<lparr>active_users := active_users s @ [a]\<rparr>))"

definition set_window :: "ActiveUser \<Rightarrow> ActiveUser \<Rightarrow> ActiveUser" where
  "set_window u a = a\<lparr>a_paid_on := a_paid_on u, a_expires_on := a_expires_on u,
                       a_service := a_service u\<rparr>"

definition active_updateOne :: "bool \<Rightarrow> ActiveUser \<Rightarrow> db \<Rightarrow> (error + unit) \<times> db" where
  "active_updateOne fault u s =
     (if fault then (Inl StoreFailure, s)
      else case find (\<lambda>a. a_email a = a_email u) (active_users s) of
             None \<Rightarrow> (Inr (), s)
           | Some a \<Rightarrow>
               if \<not> active_validator (set_window u a)
               then (Inl DocumentValidationFailure, s)
               else (Inr (), s\<lparr>active_users :=
                       update_first (\<lambda>a. a_email a = a_email u) (set_window u)
                         (active_users s)\<rparr>))"

definition active_findOne :: "bool \<Rightarrow> string \<Rightarrow> db \<Rightarrow> (error + ActiveUser option) \<times> db" where
  "active_findOne fault e s =
     (if fault then (Inl StoreFailure, s)
      else (Inr (find (\<lambda>a. a_email a = e) (active_users s)), s))"

subsection \<open>Upserts and the ledger insert\<close>

text \<open>
  \<^verbatim>\<open>createOrUpdateCustomer\<close> inserts \<^verbatim>\<open>{ email, createdAt: now, updatedAt: now }\<close>; on
  error code 11000 it sets \<^verbatim>\<open>updatedAt\<close> alone (\<^verbatim>\<open>email\<close> and \<^verbatim>\<open>createdAt\<close> are deleted
  from the update) and reads the document back; any other error is thrown on. Of its
  argument only \<^verbatim>\<open>email\<close> is read.
\<close>

definition createOrUpdateCustomer ::
  "faults \<Rightarrow> date \<Rightarrow> string \<Rightarrow> db \<Rightarrow> (error + Customer option) \<times> db" where
  "createOrUpdateCustomer fl now e s =
     (let c = \<lparr>c_email = e, createdAt = now, updatedAt = now\<rparr>
      in case customers_insertOne (fl CustomerInsert) c s of
           (Inr _, s1) \<Rightarrow> (Inr (Some c), s1)
         | (Inl err, s1) \<Rightarrow>
             if err = DuplicateKey
             then (case customers_updateOne (fl CustomerUpdate) e now s1 of
                     (Inl err2, s2) \<Rightarrow> (Inl err2, s2)
                   | (Inr _, s2) \<Rightarrow> customers_findOne (fl CustomerFind) e s2)
             else (Inl err, s1))"

text \<open>
  \<^verbatim>\<open>createOrUpdateActiveUser\<close> has the same shape: insert, and on code 11000 set
  \<^verbatim>\<open>paid_on\<close>, \<^verbatim>\<open>expires_on\<close> and \<^verbatim>\<open>service\<close> of the stored document and read it back.
\<close>

definition createOrUpdateActiveUser ::
  "faults \<Rightarrow> ActiveUser \<Rightarrow> db \<Rightarrow> (error + ActiveUser option) \<times> db" where
  "createOrUpdateActiveUser fl u s =
     (case active_insertOne (fl ActiveInsert) u s of
        (Inr _, s1) \<Rightarrow> (Inr (Some u), s1)
      | (Inl err, s1) \<Rightarrow>
          if err = DuplicateKey
          then (case active_updateOne (fl ActiveUpdate) u s1 of
                  (Inl err2, s2) \<Rightarrow> (Inl err2, s2)
                | (Inr _, s2) \<Rightarrow> active_findOne (fl ActiveFind) (a_email u) s2)
          else (Inl err, s1))"

text \<open>
  \<^verbatim>\<open>createTransaction\<close> always inserts; \<^verbatim>\<open>paid_on\<close> is
  \<^verbatim>\<open>transactionData.paid_on || now\<close>, and a \<^verbatim>\<open>Date\<close> is always truthy.
\<close>

definition createTransaction ::
  "bool \<Rightarrow> date \<Rightarrow> string \<Rightarrow> date option \<Rightarrow> Date \<Rightarrow> string \<Rightarrow> number \<Rightarrow> db
     \<Rightarrow> (error + Transaction) \<times> db" where
  "createTransaction fault now e paid_on expires_on service amt s =
     (let t = \<lparr>t_email = e,
               t_paid_on = (case paid_on of Some d \<Rightarrow> d | None \<Rightarrow> now),
               t_expires_on = expires_on, t_service = service, t_amount = amt\<rparr>
      in case transactions_insertOne fault t s of
           (Inl err, s1) \<Rightarrow> (Inl err, s1)
         | (Inr _, s1) \<Rightarrow> (Inr t, s1))"

text \<open>The documents of one email, for stating properties.\<close>

definition customers_for :: "string \<Rightarrow> db \<Rightarrow> Customer list" where
  "customers_for e s = filter (\<lambda>c. c_email c = e) (customersCollection s)"

definition transactions_for :: "string \<Rightarrow> db \<Rightarrow> Transaction list" where
  "transactions_for e s = filter (\<lambda>t. t_email t = e) (transactionsCollection s)"

definition active_for :: "string \<Rightarrow> db \<Rightarrow> ActiveUser list" where
  "active_for e s = filter (\<lambda>a. a_email a = e) (active_users s)"

section \<open>The webhook reconciler\<close>

text \<open>
  Of the gateway's \<^verbatim>\<open>TransactionData\<close> the handlers read \<^verbatim>\<open>reference\<close>,
  \<^verbatim>\<open>amount\<close>, \<^verbatim>\<open>paid_at\<close> and \<^verbatim>\<open>customer.email\<close>. The field \<open>paid_at\<close> holds the
  time value of \<^verbatim>\<open>new Date(paymentData.paid_at)\<close>. The \<^verbatim>\<open>data\<close> of an event is of type
  \<^verbatim>\<open>any\<close>: it may be missing, and so may its \<^verbatim>\<open>customer\<close>; reading a property of
  either then throws a \<^verbatim>\<open>TypeError\<close>.
\<close>

record customer_info =
  email :: string

record TransactionData =
  reference :: string
  amount :: number
  paid_at :: date
  customer :: "customer_info option"

record WebhookEvent =
  event :: string
  data :: "TransactionData option"

text \<open>
  The body of the \<^verbatim>\<open>try\<close> block of \<^verbatim>\<open>handleSuccessfulPayment\<close>: the three awaited
  steps in order, the first exception ending the block.
\<close>

definition payment_steps ::
  "timezone \<Rightarrow> faults \<Rightarrow> date \<Rightarrow> TransactionData option \<Rightarrow> db
     \<Rightarrow> (error + unit) \<times> db" where
  "payment_steps tz fl now paymentData s =
     (case paymentData of
        None \<Rightarrow> (Inl TypeError, s)
      | Some pd \<Rightarrow>
          (let paidDate = paid_at pd;
               expiryDate = calculateExpiryDate tz (amount pd) paidDate
           in case customer pd of
                None \<Rightarrow> (Inl TypeError, s)
              | Some cu \<Rightarrow>
                  (case createOrUpdateCustomer fl now (email cu) s of
                     (Inl err, s1) \<Rightarrow> (Inl err, s1)
                   | (Inr _, s1) \<Rightarrow>
                       (case createTransaction (fl TransactionInsert) now (email cu)
                               (Some paidDate) expiryDate ''SKYNET'' (amount pd) s1 of
                          (Inl err, s2) \<Rightarrow> (Inl err, s2)
                        | (Inr _, s2) \<Rightarrow>
                            (case createOrUpdateActiveUser fl
                                    \<lparr>a_email = email cu, a_paid_on = paidDate,
                                     a_expires_on = expiryDate, a_service = ''SKYNET''\<rparr> s2 of
                               (Inl err, s3) \<Rightarrow> (Inl err, s3)
                             | (Inr _, s3) \<Rightarrow> (Inr (), s3))))))"

text \<open>
  \<^verbatim>\<open>handleSuccessfulPayment\<close> wraps the block in one \<^verbatim>\<open>catch\<close>, which logs the error
  with \<^verbatim>\<open>console.error\<close> and returns. The result is what the function hands to its
  caller (\<open>Inl\<close> would be an exception passed on), the errors it logged, and the store.
\<close>

definition handleSuccessfulPayment ::
  "timezone \<Rightarrow> faults \<Rightarrow> date \<Rightarrow> TransactionData option \<Rightarrow> db
     \<Rightarrow> (error + unit) \<times> error list \<times> db" where
  "handleSuccessfulPayment tz fl now paymentData s =
     (case payment_steps tz fl now paymentData s of
        (Inl err, s') \<Rightarrow> (Inr (), [err], s')
      | (Inr _, s') \<Rightarrow> (Inr (), [], s'))"

text \<open>
  \<^verbatim>\<open>handleFailedPayment\<close> only logs \<^verbatim>\<open>paymentData.reference\<close>, \<^verbatim>\<open>paymentData.amount\<close>
  and \<^verbatim>\<open>paymentData.customer.email\<close>; it has no \<^verbatim>\<open>try\<close>.
\<close>

definition handleFailedPayment :: "TransactionData option \<Rightarrow> error + unit" where
  "handleFailedPayment paymentData =
     (case paymentData of
        None \<Rightarrow> Inl TypeError
      | Some pd \<Rightarrow> (case customer pd of None \<Rightarrow> Inl TypeError | Some cu \<Rightarrow> Inr ()))"

text \<open>
  The webhook route. Its response is the status code and the \<^verbatim>\<open>success\<close> flag of the
  JSON body. The handler does not await \<^verbatim>\<open>handleSuccessfulPayment\<close>; the store returned
  here is the store once that call has settled. The first argument is the time zone of
  the host, which the expiry calculator reads.
\<close>

record response =
  status :: nat
  success :: bool

definition webhook_paystack ::
  "timezone \<Rightarrow> faults \<Rightarrow> date \<Rightarrow> WebhookEvent \<Rightarrow> db \<Rightarrow> response \<times> db" where
  "webhook_paystack tz fl now ev s =
     (if event ev = ''charge.success''
      then (case handleSuccessfulPayment tz fl now (data ev) s of
              (_, _, s') \<Rightarrow> (\<lparr>status = 200, success = True\<rparr>, s'))
      else if event ev = ''charge.failed''
      then (case handleFailedPayment (data ev) of
              Inl err \<Rightarrow> (\<lparr>status = 500, success = False\<rparr>, s)
            | Inr _ \<Rightarrow> (\<lparr>status = 200, success = True\<rparr>, s))
      else if event ev = ''transfer.success'' then (\<lparr>status = 200, success = True\<rparr>, s)
      else if event ev = ''transfer.failed'' then (\<lparr>status = 200, success = True\<rparr>, s)
      else (\<lparr>status = 200, success = True\<rparr>, s))"

text \<open>Events delivered one after the other, each with its own faults and clock reading.\<close>

fun deliver :: "timezone \<Rightarrow> (faults \<times> date \<times> WebhookEvent) list \<Rightarrow> db \<Rightarrow> db" where
  "deliver tz [] s = s"
| "deliver tz ((fl, now, ev) # rest) s =
     deliver tz rest (snd (webhook_paystack tz fl now ev s))"

definition charge_success :: "string \<Rightarrow> string \<Rightarrow> number \<Rightarrow> date \<Rightarrow> WebhookEvent" where
  "charge_success ref e amt paid =
     \<lparr>event = ''charge.success'',
      data = Some \<lparr>reference = ref, amount = amt, paid_at = paid,
                   customer = Some \<lparr>email = e\<rparr>\<rparr>\<rparr>"

text \<open>
  The two documents \<^verbatim>\<open>handleSuccessfulPayment\<close> builds from an event's email, amount
  and payment date, and the fault pattern in which exactly one driver call fails.
\<close>

definition ledger_entry :: "timezone \<Rightarrow> string \<Rightarrow> number \<Rightarrow> date \<Rightarrow> Transaction" where
  "ledger_entry tz e amt paid =
     \<lparr>t_email = e, t_paid_on = paid, t_expires_on = calculateExpiryDate tz amt paid,
      t_service = ''SKYNET'', t_amount = amt\<rparr>"

definition entitlement :: "timezone \<Rightarrow> string \<Rightarrow> number \<Rightarrow> date \<Rightarrow> ActiveUser" where
  "entitlement tz e amt paid =
     \<lparr>a_email = e, a_paid_on = paid, a_expires_on = calculateExpiryDate tz amt paid,
      a_service = ''SKYNET''\<rparr>"

definition only_fault :: "dbop \<Rightarrow> faults" where
  "only_fault op = (\<lambda>x. x = op)"

section \<open>The initialize-payment route\<close>

text \<open>
  The request body gives \<^verbatim>\<open>email: string\<close> and \<^verbatim>\<open>amount: number | string\<close>, either of
  which may be absent. \<^verbatim>\<open>parseFloat\<close> is the language's; it is a parameter here. So is
  the gateway, of which only success or failure of the call matters. The result is the
  status code and the calls made to the gateway.
\<close>

datatype amount_field = AmountNumber number | AmountString string

record PaymentInitializeRequest =
  req_email :: "string option"
  req_amount :: "amount_field option"

record paymentData =
  pd_email :: string
  pd_amount :: number

fun falsy_amount :: "amount_field \<Rightarrow> bool" where
  "falsy_amount (AmountNumber n) = falsy_number n"
| "falsy_amount (AmountString t) = (t = [])"

fun numericAmount :: "(string \<Rightarrow> number) \<Rightarrow> amount_field \<Rightarrow> number" where
  "numericAmount parseFloat (AmountString t) = parseFloat t"
| "numericAmount parseFloat (AmountNumber n) = n"

definition payment_initialize ::
  "(string \<Rightarrow> number) \<Rightarrow> (paymentData \<Rightarrow> bool) \<Rightarrow> PaymentInitializeRequest
     \<Rightarrow> nat \<times> paymentData list" where
  "payment_initialize parseFloat paystackAPI req =
     (case (req_email req, req_amount req) of
        (Some e, Some a) \<Rightarrow>
          if e = [] \<or> falsy_amount a then (400, [])
          else (let n = numericAmount parseFloat a
                in if isNaN n \<or> le_zero n then (400, [])
                   else (let call = \<lparr>pd_email = e, pd_amount = n\<rparr>
                         in (if paystackAPI call then 200 else 500, [call])))
      | _ \<Rightarrow> (400, []))"

text \<open>
  For concrete requests: \<^verbatim>\<open>parseFloat\<close> on three strings (\<^verbatim>\<open>parseFloat("5000")\<close> is 5000,
  \<^verbatim>\<open>parseFloat("-3")\<close> is -3, \<^verbatim>\<open>parseFloat("abc")\<close> is NaN; it is not used on other
  strings), and a gateway that accepts every call.
\<close>

definition parseFloat_sample :: "string \<Rightarrow> number" where
  "parseFloat_sample t =
     (if t = ''5000'' then Num 5000 else if t = ''-3'' then Num (- 3) else NaN)"

definition gateway_accepts :: "paymentData \<Rightarrow> bool" where
  "gateway_accepts call = True"

section \<open>Facts about the store and the steps\<close>

lemma email_pattern_example: "email_pattern ''ada@example.com''"
  by code_simp

lemma no_faults_apply: "no_faults op = False"
  by (simp add: no_faults_def)

lemma only_fault_apply: "only_fault op x = (x = op)"
  by (simp add: only_fault_def)

lemma find_email: "find (\<lambda>c. c_email c = e) cs = Some c \<Longrightarrow> c_email c = e"
  by (auto simp: find_Some_iff)

lemma find_append_none: "\<forall>x\<in>set xs. \<not> P x \<Longrightarrow> find P (xs @ ys) = find P ys"
  by (induction xs) auto

lemma update_first_append_none:
  "\<forall>x\<in>set xs. \<not> P x \<Longrightarrow> update_first P f (xs @ ys) = xs @ update_first P f ys"
  by (induction xs) auto

lemma filter_none: "\<forall>x\<in>set xs. \<not> P x \<Longrightarrow> filter P xs = []"
  by (induction xs) auto

lemma gt_zero_iff: "gt_zero n = (\<not> isNaN n \<and> \<not> le_zero n)"
  by (cases n) auto

lemma le_zero_tier_days: "le_zero amt \<Longrightarrow> tier_days amt = 1"
  by (cases amt) (auto simp: tier_days_def)

text \<open>The customer upsert touches neither the ledger nor the entitlements.\<close>

lemma createOrUpdateCustomer_frame:
  "transactionsCollection (snd (createOrUpdateCustomer fl now e s)) = transactionsCollection s
   \<and> active_users (snd (createOrUpdateCustomer fl now e s)) = active_users s"
  by (simp add: createOrUpdateCustomer_def customers_insertOne_def customers_updateOne_def
      customers_findOne_def Let_def split: option.splits)

text \<open>It reads the fault pattern at its own three calls only.\<close>

lemma createOrUpdateCustomer_faults:
  assumes "fl CustomerInsert = fl' CustomerInsert" "fl CustomerUpdate = fl' CustomerUpdate"
    "fl CustomerFind = fl' CustomerFind"
  shows "createOrUpdateCustomer fl now e s = createOrUpdateCustomer fl' now e s"
  by (simp add: createOrUpdateCustomer_def assms cong: prod.case_cong sum.case_cong if_cong)

text \<open>With a schema-valid email and no storage failure it returns normally.\<close>

lemma createOrUpdateCustomer_succeeds:
  assumes "email_pattern e" "\<not> fl CustomerInsert" "\<not> fl CustomerUpdate" "\<not> fl CustomerFind"
  shows "\<exists>r. fst (createOrUpdateCustomer fl now e s) = Inr r"
  using assms
  by (auto simp add: createOrUpdateCustomer_def customers_insertOne_def customers_updateOne_def
      customers_findOne_def customer_validator_def Let_def dest: find_email split: option.splits)

lemma createOrUpdateCustomer_result:
  assumes "email_pattern e"
  obtains r where "createOrUpdateCustomer no_faults now e s
                     = (Inr r, snd (createOrUpdateCustomer no_faults now e s))"
proof -
  obtain r where "fst (createOrUpdateCustomer no_faults now e s) = Inr r"
    using createOrUpdateCustomer_succeeds [OF assms, of no_faults now s]
    by (auto simp: no_faults_apply)
  then have "createOrUpdateCustomer no_faults now e s
               = (Inr r, snd (createOrUpdateCustomer no_faults now e s))"
    by (simp add: prod_eq_iff)
  then show thesis by (rule that)
qed

lemma createTransaction_ok:
  assumes "email_pattern e" "minimum_zero amt" "\<not> fault"
  shows "createTransaction fault now e (Some p) x sv amt s =
     (Inr \<lparr>t_email = e, t_paid_on = p, t_expires_on = x, t_service = sv, t_amount = amt\<rparr>,
      s\<lparr>transactionsCollection := transactionsCollection s @
          [\<lparr>t_email = e, t_paid_on = p, t_expires_on = x, t_service = sv, t_amount = amt\<rparr>]\<rparr>)"
  using assms
  by (simp add: createTransaction_def transactions_insertOne_def transaction_validator_def Let_def)

text \<open>
  An insert into \<^verbatim>\<open>active\<close> never meets a duplicate key, so the upsert appends.
\<close>

lemma createOrUpdateActiveUser_ok:
  assumes "email_pattern (a_email u)" "\<not> fl ActiveInsert"
  shows "createOrUpdateActiveUser fl u s
           = (Inr (Some u), s\<lparr>active_users := active_users s @ [u]\<rparr>)"
  using assms
  by (simp add: createOrUpdateActiveUser_def active_insertOne_def active_validator_def)

text \<open>A payment-succeeded event whose three steps all succeed.\<close>

lemma payment_steps_ok:
  assumes "email_pattern e" "minimum_zero amt"
    and "\<not> fl CustomerInsert" "\<not> fl CustomerUpdate" "\<not> fl CustomerFind"
    and "\<not> fl TransactionInsert" "\<not> fl ActiveInsert"
  shows "\<exists>s'. payment_steps tz fl now (data (charge_success ref e amt paid)) s = (Inr (), s')
     \<and> transactionsCollection s' = transactionsCollection s @ [ledger_entry tz e amt paid]
     \<and> active_users s' = active_users s @ [entitlement tz e amt paid]"
proof -
  obtain r where r: "fst (createOrUpdateCustomer fl now e s) = Inr r"
    using createOrUpdateCustomer_succeeds [OF assms(1) assms(3-5)] by blast
  define s1 where "s1 = snd (createOrUpdateCustomer fl now e s)"
  have c: "createOrUpdateCustomer fl now e s = (Inr r, s1)"
    using r by (simp add: s1_def prod_eq_iff)
  have f: "transactionsCollection s1 = transactionsCollection s"
    "active_users s1 = active_users s"
    using createOrUpdateCustomer_frame [of fl now e s] by (simp_all add: s1_def)
  show ?thesis
    using assms f
    by (simp add: payment_steps_def charge_success_def c createTransaction_ok
        createOrUpdateActiveUser_ok ledger_entry_def entitlement_def Let_def)
qed

lemma deliver_success:
  assumes "email_pattern e" "minimum_zero amt"
  shows "transactionsCollection
           (snd (webhook_paystack tz no_faults now (charge_success ref e amt paid) s))
         = transactionsCollection s @ [ledger_entry tz e amt paid]"
    and "active_users (snd (webhook_paystack tz no_faults now (charge_success ref e amt paid) s))
         = active_users s @ [entitlement tz e amt paid]"
proof -
  obtain s' where s':
    "payment_steps tz no_faults now (data (charge_success ref e amt paid)) s = (Inr (), s')"
    "transactionsCollection s' = transactionsCollection s @ [ledger_entry tz e amt paid]"
    "active_users s' = active_users s @ [entitlement tz e amt paid]"
    using payment_steps_ok [OF assms, of no_faults tz now ref paid s]
    by (auto simp: no_faults_apply)
  have w: "snd (webhook_paystack tz no_faults now (charge_success ref e amt paid) s) = s'"
    using s'(1) by (simp add: webhook_paystack_def handleSuccessfulPayment_def charge_success_def)
  show "transactionsCollection
           (snd (webhook_paystack tz no_faults now (charge_success ref e amt paid) s))
         = transactionsCollection s @ [ledger_entry tz e amt paid]"
    by (simp add: w s'(2))
  show "active_users (snd (webhook_paystack tz no_faults now (charge_success ref e amt paid) s))
         = active_users s @ [entitlement tz e amt paid]"
    by (simp add: w s'(3))
qed

text \<open>
  The calendar at some dates: 1 January 1970, 31 December 1969, 29 February and 1 March
  2000, 28 February and 1 March 1900, 29 February 2024, and the first and the last day a
  date can hold (20 April -271821 and 13 September 275760).
\<close>

lemma DateFromTime_examples:
  "DateFromTime 0 = 1" "DateFromTime (- 1) = 31"
  "DateFromTime 951782400000 = 29" "DateFromTime 951868800000 = 1"
  "DateFromTime (- 2203977600000) = 28" "DateFromTime (- 2203891200000) = 1"
  "DateFromTime 1709164800000 = 29"
  "DateFromTime (- 8640000000000000) = 20" "DateFromTime 8640000000000000 = 13"
  by code_simp+

text \<open>
  \<^verbatim>\<open>setDate(getDate() + n)\<close> moves a date by \<open>n\<close> days of local time, whatever the month,
  and the result is read back in the zone and clipped.
\<close>

lemma calculateExpiryDate_local_days:
  assumes "valid_time paid"
  shows "calculateExpiryDate tz amt paid
           = TimeClip (UTC tz (LocalTime tz paid + tier_days amt * msPerDay))"
proof -
  have "MakeDate (MakeDay_in_month (LocalTime tz paid)
                    (DateFromTime (LocalTime tz paid) + tier_days amt))
          (TimeWithinDay (LocalTime tz paid))
        = LocalTime tz paid + tier_days amt * msPerDay"
    by (simp add: MakeDate_def MakeDay_in_month_def DateFromTime_def TimeWithinDay_def Day_def
        algebra_simps)
  then show ?thesis
    using assms
    by (simp add: calculateExpiryDate_def TimeClip_def getDate_def setDate_def Let_def)
qed

lemma calculateExpiryDate_same_offset:
  assumes "valid_time paid" "same_offset tz paid (tier_days amt)"
    "valid_time (paid + tier_days amt * msPerDay)"
  shows "calculateExpiryDate tz amt paid = TimeValue (paid + tier_days amt * msPerDay)"
  using assms by (simp add: calculateExpiryDate_local_days same_offset_def TimeClip_def)

section \<open>Properties of the expiry calculator\<close>

text \<open>
  C4, as stated, at concrete dates. The claim says that for every paid_on timestamp the
  calculator returns paid_on + 1 day for amount 500. For the last time value a date can
  hold, on a host in UTC, it returns an invalid date; and for noon UTC of 9 March 2024 on
  a host in America/New_York, whose clocks go forward the next morning, it returns the
  time value 23 hours later (82800000 ms), not 24.
\<close>

theorem calculateExpiryDate_counterexample:
  "calculateExpiryDate utc_zone (Num 500) 8640000000000000 = InvalidDate
   \<and> calculateExpiryDate new_york_march_2024 (Num 500) 1709985600000
       = TimeValue (1709985600000 + 82800000)"
  by code_simp

text \<open>
  C4, amended. For every paid_on timestamp (a valid date), the calculator returns the
  date that lies n days later in local time, at the same local time of day, read back in
  the host's time zone: n = 1 for amount 500, 30 for amount 11000, 90 for amount 25000,
  and 1 for every amount outside these three. Where the zone has the same offset at that
  date as at paid_on (as on a host in UTC) and the result is within the range of time
  values, this is paid_on + n days of 86400000 ms; where the result is outside the range,
  it is an invalid date.
\<close>

theorem calculateExpiryDate_tiers:
  assumes "valid_time paid_on"
  shows "(same_offset tz paid_on 1 \<and> valid_time (paid_on + 1 * msPerDay)
          \<longrightarrow> calculateExpiryDate tz (Num 500) paid_on = TimeValue (paid_on + 1 * msPerDay))
     \<and> (same_offset tz paid_on 30 \<and> valid_time (paid_on + 30 * msPerDay)
          \<longrightarrow> calculateExpiryDate tz (Num 11000) paid_on = TimeValue (paid_on + 30 * msPerDay))
     \<and> (same_offset tz paid_on 90 \<and> valid_time (paid_on + 90 * msPerDay)
          \<longrightarrow> calculateExpiryDate tz (Num 25000) paid_on = TimeValue (paid_on + 90 * msPerDay))
     \<and> (amt \<notin> {Num 500, Num 11000, Num 25000}
          \<and> same_offset tz paid_on 1 \<and> valid_time (paid_on + 1 * msPerDay)
          \<longrightarrow> calculateExpiryDate tz amt paid_on = TimeValue (paid_on + 1 * msPerDay))
     \<and> calculateExpiryDate tz amt paid_on
         = TimeClip (UTC tz (LocalTime tz paid_on + tier_days amt * msPerDay))
     \<and> (\<not> valid_time (UTC tz (LocalTime tz paid_on + tier_days amt * msPerDay))
          \<longrightarrow> calculateExpiryDate tz amt paid_on = InvalidDate)"
proof (intro conjI impI)
  show "calculateExpiryDate tz (Num 500) paid_on = TimeValue (paid_on + 1 * msPerDay)"
    if "same_offset tz paid_on 1 \<and> valid_time (paid_on + 1 * msPerDay)"
    using assms that calculateExpiryDate_same_offset [of paid_on tz "Num 500"]
    by (simp add: tier_days_def)
  show "calculateExpiryDate tz (Num 11000) paid_on = TimeValue (paid_on + 30 * msPerDay)"
    if "same_offset tz paid_on 30 \<and> valid_time (paid_on + 30 * msPerDay)"
    using assms that calculateExpiryDate_same_offset [of paid_on tz "Num 11000"]
    by (simp add: tier_days_def)
  show "calculateExpiryDate tz (Num 25000) paid_on = TimeValue (paid_on + 90 * msPerDay)"
    if "same_offset tz paid_on 90 \<and> valid_time (paid_on + 90 * msPerDay)"
    using assms that calculateExpiryDate_same_offset [of paid_on tz "Num 25000"]
    by (simp add: tier_days_def)
  show "calculateExpiryDate tz amt paid_on = TimeValue (paid_on + 1 * msPerDay)"
    if "amt \<notin> {Num 500, Num 11000, Num 25000}
          \<and> same_offset tz paid_on 1 \<and> valid_time (paid_on + 1 * msPerDay)"
    using assms that calculateExpiryDate_same_offset [of paid_on tz amt]
    by (simp add: tier_days_def)
  show "calculateExpiryDate tz amt paid_on
         = TimeClip (UTC tz (LocalTime tz paid_on + tier_days amt * msPerDay))"
    using assms by (rule calculateExpiryDate_local_days)
  show "calculateExpiryDate tz amt paid_on = InvalidDate"
    if "\<not> valid_time (UTC tz (LocalTime tz paid_on + tier_days amt * msPerDay))"
    using assms that by (simp add: calculateExpiryDate_local_days TimeClip_def)
qed

theorem calculateExpiryDate_tiers_witness:
  "valid_time 1704067200000
   \<and> same_offset utc_zone 1704067200000 1 \<and> valid_time (1704067200000 + 1 * msPerDay)
   \<and> calculateExpiryDate utc_zone (Num 500) 1704067200000 = TimeValue 1704153600000
   \<and> same_offset utc_zone 1704067200000 30 \<and> valid_time (1704067200000 + 30 * msPerDay)
   \<and> calculateExpiryDate utc_zone (Num 11000) 1704067200000 = TimeValue 1706659200000
   \<and> same_offset utc_zone 1704067200000 90 \<and> valid_time (1704067200000 + 90 * msPerDay)
   \<and> calculateExpiryDate utc_zone (Num 25000) 1704067200000 = TimeValue 1711843200000
   \<and> Num 999 \<notin> {Num 500, Num 11000, Num 25000}
   \<and> calculateExpiryDate utc_zone (Num 999) 1704067200000 = TimeValue 1704153600000
   \<and> valid_time 8640000000000000
   \<and> \<not> valid_time (UTC utc_zone (LocalTime utc_zone 8640000000000000
                                  + tier_days (Num 500) * msPerDay))
   \<and> calculateExpiryDate utc_zone (Num 500) 8640000000000000 = InvalidDate"
proof -
  have h1: "valid_time 1704067200000"
    by (simp add: valid_time_def maxTime_def)
  have h2: "valid_time 8640000000000000"
    by (simp add: valid_time_def maxTime_def)
  have h3: "Num 999 \<notin> {Num 500, Num 11000, Num 25000}"
    by simp
  have h4: "same_offset utc_zone 1704067200000 1 \<and> valid_time (1704067200000 + 1 * msPerDay)"
    "same_offset utc_zone 1704067200000 30 \<and> valid_time (1704067200000 + 30 * msPerDay)"
    "same_offset utc_zone 1704067200000 90 \<and> valid_time (1704067200000 + 90 * msPerDay)"
    by (simp_all add: same_offset_def utc_zone_def valid_time_def maxTime_def msPerDay_def)
  have h5: "\<not> valid_time (UTC utc_zone (LocalTime utc_zone 8640000000000000
                                  + tier_days (Num 500) * msPerDay))"
    by (simp add: utc_zone_def valid_time_def maxTime_def msPerDay_def tier_days_def)
  show ?thesis
    using h1 h2 h3 h4 h5
      calculateExpiryDate_tiers [OF h1, of utc_zone "Num 999"]
      calculateExpiryDate_tiers [OF h2, of utc_zone "Num 500"]
    by (auto simp: msPerDay_def TimeClip_def)
qed

section \<open>Replayed and reordered deliveries\<close>

text \<open>
  C1, as stated, at a concrete replay. The claim says that the identical
  payment-succeeded event delivered twice leaves exactly one Transaction record and
  exactly one ActiveSubscription record for the email. Delivered twice to the empty
  store, the event leaves two of each.
\<close>

theorem replay_counterexample:
  "length (transactions_for ''ada@example.com''
     (deliver utc_zone [(no_faults, 1704067201000,
                charge_success ''ref_1'' ''ada@example.com'' (Num 500) 1704067200000),
               (no_faults, 1704067202000,
                charge_success ''ref_1'' ''ada@example.com'' (Num 500) 1704067200000)]
        empty_db)) = 2
   \<and> length (active_for ''ada@example.com''
     (deliver utc_zone [(no_faults, 1704067201000,
                charge_success ''ref_1'' ''ada@example.com'' (Num 500) 1704067200000),
               (no_faults, 1704067202000,
                charge_success ''ref_1'' ''ada@example.com'' (Num 500) 1704067200000)]
        empty_db)) = 2"
  by code_simp

text \<open>
  C1, amended. When the identical payment-succeeded event (same reference, email, amount
  and paid_at) is delivered twice, with a schema-valid email, an amount of at least zero
  and no storage failure, the Transaction records of that email grow by two identical
  entries, one per delivery: the reference is not checked before the ledger insert, and
  the second reconciliation changes the store again.
\<close>

theorem replay_appends_ledger:
  assumes "email_pattern e" "minimum_zero amt"
  shows "transactions_for e
           (deliver tz [(no_faults, now1, charge_success ref e amt paid),
                     (no_faults, now2, charge_success ref e amt paid)] s)
         = transactions_for e s @ [ledger_entry tz e amt paid, ledger_entry tz e amt paid]"
  by (simp add: transactions_for_def deliver_success [OF assms] ledger_entry_def)

theorem replay_appends_ledger_witness:
  "email_pattern ''ada@example.com'' \<and> minimum_zero (Num 500)
   \<and> transactions_for ''ada@example.com''
        (deliver utc_zone [(no_faults, 1704067201000,
                   charge_success ''ref_1'' ''ada@example.com'' (Num 500) 1704067200000),
                  (no_faults, 1704067202000,
                   charge_success ''ref_1'' ''ada@example.com'' (Num 500) 1704067200000)]
           empty_db)
      = [ledger_entry utc_zone ''ada@example.com'' (Num 500) 1704067200000,
         ledger_entry utc_zone ''ada@example.com'' (Num 500) 1704067200000]"
proof -
  have h1: "email_pattern ''ada@example.com''" by (rule email_pattern_example)
  have h2: "minimum_zero (Num 500)" by simp
  show ?thesis
    using h1 h2
      replay_appends_ledger [OF h1 h2, of utc_zone 1704067201000 "''ref_1''" 1704067200000
        1704067202000 empty_db]
    by (simp add: transactions_for_def empty_db_def)
qed

text \<open>
  C2, at a failing input. The claim says that the ActiveSubscription collection holds
  at most one record per email and that a new successful payment overwrites the stored
  record. Two successful payments of one email, delivered to the empty store, leave two
  ActiveSubscription records of that email: the \<^verbatim>\<open>email\<close> index of \<^verbatim>\<open>active\<close> is not
  unique, the insert succeeds, and the update branch of the upsert is never taken.
\<close>

theorem active_users_duplicate_email:
  "map a_paid_on (active_for ''ada@example.com''
     (deliver utc_zone [(no_faults, 1704067201000,
                charge_success ''ref_1'' ''ada@example.com'' (Num 500) 1704067200000),
               (no_faults, 1704153601000,
                charge_success ''ref_2'' ''ada@example.com'' (Num 500) 1704153600000)]
        empty_db)) = [1704067200000, 1704153600000]"
  by code_simp

text \<open>
  C3, as stated, at concrete events. The claim says that two payment-succeeded events of
  one email with paid_on T1 < T2 leave, in either arrival order, the ActiveSubscription
  record of that email with paid_on = T2. In both orders a record with paid_on = T1
  remains, and what is stored depends on the order.
\<close>

theorem arrival_order_counterexample:
  "map a_paid_on (active_for ''ada@example.com''
     (deliver utc_zone [(no_faults, 1704153601000,
                charge_success ''ref_1'' ''ada@example.com'' (Num 500) 1704067200000),
               (no_faults, 1704153602000,
                charge_success ''ref_2'' ''ada@example.com'' (Num 500) 1704153600000)]
        empty_db)) = [1704067200000, 1704153600000]
   \<and> map a_paid_on (active_for ''ada@example.com''
     (deliver utc_zone [(no_faults, 1704153601000,
                charge_success ''ref_2'' ''ada@example.com'' (Num 500) 1704153600000),
               (no_faults, 1704153602000,
                charge_success ''ref_1'' ''ada@example.com'' (Num 500) 1704067200000)]
        empty_db)) = [1704153600000, 1704067200000]"
  by code_simp

text \<open>
  C3, amended. For two payment-succeeded events of one email with paid_on T1 < T2
  (schema-valid email, amounts of at least zero, no storage failure), the
  ActiveSubscription record of that email written last carries the paid_on of the event
  that arrived last: T2 when they arrive as T1 then T2, T1 when they arrive as T2 then
  T1. The stored paid_on is never compared with the new one.
\<close>

theorem last_delivery_wins:
  assumes "email_pattern e" "minimum_zero amt1" "minimum_zero amt2" "T1 < T2"
  shows "a_paid_on (last (active_for e
           (deliver tz [(no_faults, now1, charge_success ref1 e amt1 T1),
                     (no_faults, now2, charge_success ref2 e amt2 T2)] s))) = T2
       \<and> a_paid_on (last (active_for e
           (deliver tz [(no_faults, now1, charge_success ref2 e amt2 T2),
                     (no_faults, now2, charge_success ref1 e amt1 T1)] s))) = T1"
  by (simp add: active_for_def deliver_success(2) [OF assms(1,2)]
      deliver_success(2) [OF assms(1,3)] entitlement_def)

theorem last_delivery_wins_witness:
  "email_pattern ''ada@example.com'' \<and> minimum_zero (Num 500) \<and> minimum_zero (Num 11000)
   \<and> (1704067200000 :: int) < 1704153600000
   \<and> a_paid_on (last (active_for ''ada@example.com''
        (deliver utc_zone [(no_faults, 1704153601000,
                   charge_success ''ref_1'' ''ada@example.com'' (Num 500) 1704067200000),
                  (no_faults, 1704153602000,
                   charge_success ''ref_2'' ''ada@example.com'' (Num 11000) 1704153600000)]
           empty_db))) = 1704153600000
   \<and> a_paid_on (last (active_for ''ada@example.com''
        (deliver utc_zone [(no_faults, 1704153601000,
                   charge_success ''ref_2'' ''ada@example.com'' (Num 11000) 1704153600000),
                  (no_faults, 1704153602000,
                   charge_success ''ref_1'' ''ada@example.com'' (Num 500) 1704067200000)]
           empty_db))) = 1704067200000"
proof -
  have h1: "email_pattern ''ada@example.com''" by (rule email_pattern_example)
  have h2: "minimum_zero (Num 500)" by simp
  have h3: "minimum_zero (Num 11000)" by simp
  have h4: "(1704067200000 :: int) < 1704153600000" by simp
  show ?thesis
    using h1 h2 h3 h4
      last_delivery_wins [OF h1 h2 h3 h4, of utc_zone 1704153601000 "''ref_1''" 1704153602000
        "''ref_2''" empty_db]
    by simp
qed

section \<open>Acknowledgment and failures\<close>

text \<open>
  C5, as stated, at a concrete body. The claim says that every body with an
  \<^verbatim>\<open>event\<close> field, of any event kind, is answered with 200. The body
  \<^verbatim>\<open>{ "event": "charge.failed" }\<close>, which has no \<^verbatim>\<open>data\<close>, is answered with 500:
  \<^verbatim>\<open>handleFailedPayment\<close> reads \<^verbatim>\<open>paymentData.reference\<close> outside any \<^verbatim>\<open>try\<close> of
  its own, and the route's \<^verbatim>\<open>catch\<close> answers 500.
\<close>

theorem charge_failed_counterexample:
  "fst (webhook_paystack utc_zone no_faults 1704067201000
          \<lparr>event = ''charge.failed'', data = None\<rparr> empty_db)
     = \<lparr>status = 500, success = False\<rparr>"
  by (simp add: webhook_paystack_def handleFailedPayment_def)

text \<open>
  C5, amended. \<^verbatim>\<open>handleSuccessfulPayment\<close> never passes an exception on to the webhook
  route, whatever its argument and whichever store calls fail. The route answers 200
  with \<^verbatim>\<open>success: true\<close> for every body whose event is not \<^verbatim>\<open>charge.failed\<close>, and for
  a \<^verbatim>\<open>charge.failed\<close> body that has \<^verbatim>\<open>data\<close> and \<^verbatim>\<open>data.customer\<close>, whichever
  reconciliation writes fail; a \<^verbatim>\<open>charge.failed\<close> body without \<^verbatim>\<open>data\<close> or without
  \<^verbatim>\<open>data.customer\<close> is answered with 500.
\<close>

theorem webhook_acknowledges:
  "fst (handleSuccessfulPayment tz fl now d s) = Inr ()
   \<and> ((event ev \<noteq> ''charge.failed'' \<or> (\<exists>pd cu. data ev = Some pd \<and> customer pd = Some cu))
        \<longrightarrow> fst (webhook_paystack tz fl now ev s) = \<lparr>status = 200, success = True\<rparr>)
   \<and> ((event ev = ''charge.failed''
          \<and> (data ev = None \<or> (\<exists>pd. data ev = Some pd \<and> customer pd = None)))
        \<longrightarrow> fst (webhook_paystack tz fl now ev s) = \<lparr>status = 500, success = False\<rparr>)"
proof (intro conjI impI)
  show "fst (handleSuccessfulPayment tz fl now d s) = Inr ()"
    by (simp add: handleSuccessfulPayment_def split: prod.splits sum.splits)
next
  assume "event ev \<noteq> ''charge.failed''
            \<or> (\<exists>pd cu. data ev = Some pd \<and> customer pd = Some cu)"
  then show "fst (webhook_paystack tz fl now ev s) = \<lparr>status = 200, success = True\<rparr>"
    by (auto simp: webhook_paystack_def handleFailedPayment_def split: prod.splits)
next
  assume "event ev = ''charge.failed''
            \<and> (data ev = None \<or> (\<exists>pd. data ev = Some pd \<and> customer pd = None))"
  then show "fst (webhook_paystack tz fl now ev s) = \<lparr>status = 500, success = False\<rparr>"
    by (auto simp: webhook_paystack_def handleFailedPayment_def)
qed

theorem webhook_acknowledges_witness:
  "event (charge_success ''ref_1'' ''ada@example.com'' (Num 500) 1704067200000)
     \<noteq> ''charge.failed''
   \<and> fst (handleSuccessfulPayment utc_zone (only_fault TransactionInsert) 1704067201000
            (data (charge_success ''ref_1'' ''ada@example.com'' (Num 500) 1704067200000))
            empty_db) = Inr ()
   \<and> fst (webhook_paystack utc_zone (only_fault TransactionInsert) 1704067201000
            (charge_success ''ref_1'' ''ada@example.com'' (Num 500) 1704067200000) empty_db)
       = \<lparr>status = 200, success = True\<rparr>
   \<and> event \<lparr>event = ''charge.failed'', data = None\<rparr> = ''charge.failed''
   \<and> data \<lparr>event = ''charge.failed'', data = None\<rparr> = None
   \<and> fst (webhook_paystack utc_zone (only_fault TransactionInsert) 1704067201000
            \<lparr>event = ''charge.failed'', data = None\<rparr> empty_db)
       = \<lparr>status = 500, success = False\<rparr>"
proof -
  have h1: "event (charge_success ''ref_1'' ''ada@example.com'' (Num 500) 1704067200000)
              \<noteq> ''charge.failed''"
    by (simp add: charge_success_def)
  show ?thesis
    using h1
      webhook_acknowledges [of utc_zone "only_fault TransactionInsert" 1704067201000
        "data (charge_success ''ref_1'' ''ada@example.com'' (Num 500) 1704067200000)"
        empty_db
        "charge_success ''ref_1'' ''ada@example.com'' (Num 500) 1704067200000"]
      webhook_acknowledges [of utc_zone "only_fault TransactionInsert" 1704067201000
        None empty_db "\<lparr>event = ''charge.failed'', data = None\<rparr>"]
    by simp
qed

text \<open>
  C7, as stated, at a concrete failure. The claim says that a storage failure in one
  write step does not prevent the other steps from being applied. When the Customer
  insert fails, the event leaves the store as it was: neither the Transaction nor the
  ActiveSubscription is written.
\<close>

theorem failed_step_counterexample:
  "snd (webhook_paystack utc_zone (only_fault CustomerInsert) 1704067201000
          (charge_success ''ref_1'' ''ada@example.com'' (Num 500) 1704067200000) empty_db)
     = empty_db"
  by (simp add: webhook_paystack_def handleSuccessfulPayment_def payment_steps_def
      charge_success_def createOrUpdateCustomer_def customers_insertOne_def
      only_fault_apply Let_def)

text \<open>
  C7, amended. During reconciliation of a payment-succeeded event (schema-valid email,
  amount of at least zero) the three write steps run inside one \<^verbatim>\<open>try\<close> block with one
  handler: a storage failure in a step is caught and logged, the steps after it are not
  run, the writes of the steps before it stay applied, and the event is acknowledged
  with 200 all the same. If the Customer insert fails nothing is written; if the
  Transaction insert fails only the Customer upsert is applied; if the ActiveSubscription
  insert fails the Customer upsert and the Transaction insert are applied.
\<close>

theorem single_handler_skips_later_steps:
  assumes "email_pattern e" "minimum_zero amt"
  shows "handleSuccessfulPayment tz (only_fault CustomerInsert) now
           (data (charge_success ref e amt paid)) s = (Inr (), [StoreFailure], s)
     \<and> (\<exists>s'. handleSuccessfulPayment tz (only_fault TransactionInsert) now
                 (data (charge_success ref e amt paid)) s = (Inr (), [StoreFailure], s')
            \<and> customersCollection s'
                = customersCollection (snd (createOrUpdateCustomer no_faults now e s))
            \<and> transactionsCollection s' = transactionsCollection s
            \<and> active_users s' = active_users s)
     \<and> (\<exists>s'. handleSuccessfulPayment tz (only_fault ActiveInsert) now
                 (data (charge_success ref e amt paid)) s = (Inr (), [StoreFailure], s')
            \<and> customersCollection s'
                = customersCollection (snd (createOrUpdateCustomer no_faults now e s))
            \<and> transactionsCollection s' = transactionsCollection s @ [ledger_entry tz e amt paid]
            \<and> active_users s' = active_users s)
     \<and> fst (webhook_paystack tz fl now (charge_success ref e amt paid) s)
          = \<lparr>status = 200, success = True\<rparr>"
proof (intro conjI)
  show "handleSuccessfulPayment tz (only_fault CustomerInsert) now
           (data (charge_success ref e amt paid)) s = (Inr (), [StoreFailure], s)"
    by (simp add: handleSuccessfulPayment_def payment_steps_def charge_success_def
        createOrUpdateCustomer_def customers_insertOne_def only_fault_apply Let_def)
next
  define s1 where "s1 = snd (createOrUpdateCustomer no_faults now e s)"
  have same: "createOrUpdateCustomer (only_fault TransactionInsert) now e s
                = createOrUpdateCustomer no_faults now e s"
    by (rule createOrUpdateCustomer_faults) (simp_all add: only_fault_apply no_faults_apply)
  obtain r where c: "createOrUpdateCustomer no_faults now e s = (Inr r, s1)"
    unfolding s1_def using assms(1) by (rule createOrUpdateCustomer_result)
  have f: "transactionsCollection s1 = transactionsCollection s"
    "active_users s1 = active_users s"
    using createOrUpdateCustomer_frame [of no_faults now e s] by (simp_all add: s1_def)
  have "handleSuccessfulPayment tz (only_fault TransactionInsert) now
          (data (charge_success ref e amt paid)) s = (Inr (), [StoreFailure], s1)"
    by (simp add: handleSuccessfulPayment_def payment_steps_def charge_success_def same c
        createTransaction_def transactions_insertOne_def only_fault_apply Let_def)
  then show "\<exists>s'. handleSuccessfulPayment tz (only_fault TransactionInsert) now
                 (data (charge_success ref e amt paid)) s = (Inr (), [StoreFailure], s')
            \<and> customersCollection s'
                = customersCollection (snd (createOrUpdateCustomer no_faults now e s))
            \<and> transactionsCollection s' = transactionsCollection s
            \<and> active_users s' = active_users s"
    using f by (simp add: s1_def)
next
  define s1 where "s1 = snd (createOrUpdateCustomer no_faults now e s)"
  have same: "createOrUpdateCustomer (only_fault ActiveInsert) now e s
                = createOrUpdateCustomer no_faults now e s"
    by (rule createOrUpdateCustomer_faults) (simp_all add: only_fault_apply no_faults_apply)
  obtain r where c: "createOrUpdateCustomer no_faults now e s = (Inr r, s1)"
    unfolding s1_def using assms(1) by (rule createOrUpdateCustomer_result)
  have f: "transactionsCollection s1 = transactionsCollection s"
    "active_users s1 = active_users s"
    using createOrUpdateCustomer_frame [of no_faults now e s] by (simp_all add: s1_def)
  have "handleSuccessfulPayment tz (only_fault ActiveInsert) now
          (data (charge_success ref e amt paid)) s
        = (Inr (), [StoreFailure],
           s1\<lparr>transactionsCollection := transactionsCollection s1 @ [ledger_entry tz e amt paid]\<rparr>)"
    using assms
    by (simp add: handleSuccessfulPayment_def payment_steps_def charge_success_def same c
        createTransaction_ok createOrUpdateActiveUser_def active_insertOne_def
        only_fault_apply ledger_entry_def Let_def)
  then show "\<exists>s'. handleSuccessfulPayment tz (only_fault ActiveInsert) now
                 (data (charge_success ref e amt paid)) s = (Inr (), [StoreFailure], s')
            \<and> customersCollection s'
                = customersCollection (snd (createOrUpdateCustomer no_faults now e s))
            \<and> transactionsCollection s' = transactionsCollection s @ [ledger_entry tz e amt paid]
            \<and> active_users s' = active_users s"
    using f by (simp add: s1_def)
next
  show "fst (webhook_paystack tz fl now (charge_success ref e amt paid) s)
          = \<lparr>status = 200, success = True\<rparr>"
    by (simp add: webhook_paystack_def charge_success_def split: prod.splits)
qed

theorem single_handler_skips_later_steps_witness:
  "email_pattern ''ada@example.com'' \<and> minimum_zero (Num 500)
   \<and> handleSuccessfulPayment utc_zone (only_fault CustomerInsert) 1704067201000
         (data (charge_success ''ref_1'' ''ada@example.com'' (Num 500) 1704067200000))
         empty_db = (Inr (), [StoreFailure], empty_db)
   \<and> fst (snd (handleSuccessfulPayment utc_zone (only_fault TransactionInsert) 1704067201000
         (data (charge_success ''ref_1'' ''ada@example.com'' (Num 500) 1704067200000))
         empty_db)) = [StoreFailure]
   \<and> active_users (snd (snd (handleSuccessfulPayment utc_zone (only_fault TransactionInsert)
         1704067201000
         (data (charge_success ''ref_1'' ''ada@example.com'' (Num 500) 1704067200000))
         empty_db))) = []
   \<and> transactionsCollection (snd (snd (handleSuccessfulPayment utc_zone (only_fault ActiveInsert)
         1704067201000
         (data (charge_success ''ref_1'' ''ada@example.com'' (Num 500) 1704067200000))
         empty_db))) = [ledger_entry utc_zone ''ada@example.com'' (Num 500) 1704067200000]
   \<and> active_users (snd (snd (handleSuccessfulPayment utc_zone (only_fault ActiveInsert)
         1704067201000
         (data (charge_success ''ref_1'' ''ada@example.com'' (Num 500) 1704067200000))
         empty_db))) = []
   \<and> fst (webhook_paystack utc_zone (only_fault ActiveInsert) 1704067201000
         (charge_success ''ref_1'' ''ada@example.com'' (Num 500) 1704067200000) empty_db)
       = \<lparr>status = 200, success = True\<rparr>"
proof -
  have h1: "email_pattern ''ada@example.com''" by (rule email_pattern_example)
  have h2: "minimum_zero (Num 500)" by simp
  show ?thesis
    using h1 h2
      single_handler_skips_later_steps [OF h1 h2, of utc_zone 1704067201000 "''ref_1''"
        1704067200000 empty_db "only_fault ActiveInsert"]
    by (auto simp: empty_db_def)
qed

section \<open>Events that are not successful payments\<close>

text \<open>
  C8. Reconciling a payment-failed event, a transfer-succeeded or transfer-failed event,
  or an event of unrecognized kind leaves the Customer, Transaction and ActiveSubscription
  collections unchanged: whatever the event carries and whichever calls would fail, an
  event that is not \<^verbatim>\<open>charge.success\<close> returns the store as it was.
\<close>

theorem other_events_leave_store:
  "event ev \<noteq> ''charge.success'' \<Longrightarrow> snd (webhook_paystack tz fl now ev s) = s"
  by (simp add: webhook_paystack_def split: sum.splits)

theorem other_events_leave_store_witness:
  "event \<lparr>event = ''charge.failed'',
          data = Some \<lparr>reference = ''ref_1'', amount = Num 500, paid_at = 1704067200000,
                       customer = Some \<lparr>email = ''ada@example.com''\<rparr>\<rparr>\<rparr> \<noteq> ''charge.success''
   \<and> snd (webhook_paystack utc_zone no_faults 1704067201000
        \<lparr>event = ''charge.failed'',
         data = Some \<lparr>reference = ''ref_1'', amount = Num 500, paid_at = 1704067200000,
                      customer = Some \<lparr>email = ''ada@example.com''\<rparr>\<rparr>\<rparr> empty_db) = empty_db
   \<and> event \<lparr>event = ''transfer.success'', data = None\<rparr> \<noteq> ''charge.success''
   \<and> snd (webhook_paystack utc_zone no_faults 1704067201000
        \<lparr>event = ''transfer.success'', data = None\<rparr> empty_db) = empty_db
   \<and> event \<lparr>event = ''subscription.create'', data = None\<rparr> \<noteq> ''charge.success''
   \<and> snd (webhook_paystack utc_zone no_faults 1704067201000
        \<lparr>event = ''subscription.create'', data = None\<rparr> empty_db) = empty_db"
proof -
  have h1: "event \<lparr>event = ''charge.failed'',
          data = Some \<lparr>reference = ''ref_1'', amount = Num 500, paid_at = 1704067200000,
                       customer = Some \<lparr>email = ''ada@example.com''\<rparr>\<rparr>\<rparr> \<noteq> ''charge.success''"
    by simp
  have h2: "event \<lparr>event = ''transfer.success'', data = None\<rparr> \<noteq> ''charge.success''"
    by simp
  have h3: "event \<lparr>event = ''subscription.create'', data = None\<rparr> \<noteq> ''charge.success''"
    by simp
  show ?thesis
    using h1 h2 h3
      other_events_leave_store [OF h1, of utc_zone no_faults 1704067201000 empty_db]
      other_events_leave_store [OF h2, of utc_zone no_faults 1704067201000 empty_db]
      other_events_leave_store [OF h3, of utc_zone no_faults 1704067201000 empty_db]
    by simp
qed

section \<open>Validation of initialize-payment requests\<close>

text \<open>
  C9. For every initialize-payment request, if the email is absent, or the amount is
  absent, is not a number after conversion (NaN), or is not strictly greater than zero,
  the route answers 400 and makes no call to the gateway; and whenever a call to the
  gateway is made, the request had an email and an amount whose numeric value is
  strictly greater than zero, and exactly that email and value are sent.
\<close>

theorem payment_initialize_validation:
  "((req_email req = None \<or> req_amount req = None
      \<or> (\<exists>a. req_amount req = Some a
            \<and> (isNaN (numericAmount parseFloat a) \<or> \<not> gt_zero (numericAmount parseFloat a))))
     \<longrightarrow> payment_initialize parseFloat paystackAPI req = (400, []))
   \<and> (snd (payment_initialize parseFloat paystackAPI req) \<noteq> []
     \<longrightarrow> (\<exists>e a. req_email req = Some e \<and> req_amount req = Some a
            \<and> gt_zero (numericAmount parseFloat a)
            \<and> snd (payment_initialize parseFloat paystackAPI req)
                = [\<lparr>pd_email = e, pd_amount = numericAmount parseFloat a\<rparr>]))"
proof (intro conjI impI)
  assume "req_email req = None \<or> req_amount req = None
      \<or> (\<exists>a. req_amount req = Some a
            \<and> (isNaN (numericAmount parseFloat a) \<or> \<not> gt_zero (numericAmount parseFloat a)))"
  then show "payment_initialize parseFloat paystackAPI req = (400, [])"
    by (auto simp: payment_initialize_def gt_zero_iff Let_def split: option.splits)
next
  assume "snd (payment_initialize parseFloat paystackAPI req) \<noteq> []"
  then show "\<exists>e a. req_email req = Some e \<and> req_amount req = Some a
            \<and> gt_zero (numericAmount parseFloat a)
            \<and> snd (payment_initialize parseFloat paystackAPI req)
                = [\<lparr>pd_email = e, pd_amount = numericAmount parseFloat a\<rparr>]"
    by (auto simp: payment_initialize_def gt_zero_iff Let_def split: option.splits if_splits)
qed

theorem payment_initialize_validation_witness:
  "req_email \<lparr>req_email = None, req_amount = Some (AmountNumber (Num 500))\<rparr> = None
   \<and> payment_initialize parseFloat_sample gateway_accepts
        \<lparr>req_email = None, req_amount = Some (AmountNumber (Num 500))\<rparr> = (400, [])
   \<and> isNaN (numericAmount parseFloat_sample (AmountString ''abc''))
   \<and> payment_initialize parseFloat_sample gateway_accepts
        \<lparr>req_email = Some ''ada@example.com'', req_amount = Some (AmountString ''abc'')\<rparr>
       = (400, [])
   \<and> \<not> gt_zero (numericAmount parseFloat_sample (AmountString ''-3''))
   \<and> payment_initialize parseFloat_sample gateway_accepts
        \<lparr>req_email = Some ''ada@example.com'', req_amount = Some (AmountString ''-3'')\<rparr>
       = (400, [])
   \<and> gt_zero (numericAmount parseFloat_sample (AmountString ''5000''))
   \<and> snd (payment_initialize parseFloat_sample gateway_accepts
        \<lparr>req_email = Some ''ada@example.com'', req_amount = Some (AmountString ''5000'')\<rparr>)
       = [\<lparr>pd_email = ''ada@example.com'', pd_amount = Num 5000\<rparr>]"
proof -
  have sent: "snd (payment_initialize parseFloat_sample gateway_accepts
        \<lparr>req_email = Some ''ada@example.com'', req_amount = Some (AmountString ''5000'')\<rparr>)
       \<noteq> []"
    by (simp add: payment_initialize_def parseFloat_sample_def gateway_accepts_def)
  show ?thesis
    using sent
      payment_initialize_validation [of
        "\<lparr>req_email = None, req_amount = Some (AmountNumber (Num 500))\<rparr>"
        parseFloat_sample gateway_accepts]
      payment_initialize_validation [of
        "\<lparr>req_email = Some ''ada@example.com'', req_amount = Some (AmountString ''abc'')\<rparr>"
        parseFloat_sample gateway_accepts]
      payment_initialize_validation [of
        "\<lparr>req_email = Some ''ada@example.com'', req_amount = Some (AmountString ''-3'')\<rparr>"
        parseFloat_sample gateway_accepts]
      payment_initialize_validation [of
        "\<lparr>req_email = Some ''ada@example.com'', req_amount = Some (AmountString ''5000'')\<rparr>"
        parseFloat_sample gateway_accepts]
    by (simp add: parseFloat_sample_def)
qed

section \<open>The customer upsert\<close>

text \<open>
  C6. A Customer upsert on a schema-valid email not yet in the store, with no storage
  failure, creates exactly one record of that email, with createdAt equal to updatedAt.
  A second upsert of the same email, at a later clock reading, leaves exactly one
  record, with email and createdAt unchanged and updatedAt set to the later reading.
\<close>

theorem createOrUpdateCustomer_upsert:
  assumes "email_pattern e" "e \<notin> set (map c_email (customersCollection s))" "now1 < now2"
  shows "let c1 = \<lparr>c_email = e, createdAt = now1, updatedAt = now1\<rparr>;
             c2 = \<lparr>c_email = e, createdAt = now1, updatedAt = now2\<rparr>;
             s1 = s\<lparr>customersCollection := customersCollection s @ [c1]\<rparr>;
             s2 = s\<lparr>customersCollection := customersCollection s @ [c2]\<rparr>
         in createOrUpdateCustomer no_faults now1 e s = (Inr (Some c1), s1)
            \<and> customers_for e s1 = [c1]
            \<and> createdAt c1 = updatedAt c1
            \<and> createOrUpdateCustomer no_faults now2 e s1 = (Inr (Some c2), s2)
            \<and> customers_for e s2 = [c2]
            \<and> c_email c2 = c_email c1 \<and> createdAt c2 = createdAt c1
            \<and> updatedAt c1 < updatedAt c2"
proof -
  have none: "\<forall>c\<in>set (customersCollection s). \<not> c_email c = e"
    using assms(2) by auto
  have first: "createOrUpdateCustomer no_faults now1 e s =
      (Inr (Some \<lparr>c_email = e, createdAt = now1, updatedAt = now1\<rparr>),
       s\<lparr>customersCollection := customersCollection s
            @ [\<lparr>c_email = e, createdAt = now1, updatedAt = now1\<rparr>]\<rparr>)"
    using assms(1,2)
    by (simp add: createOrUpdateCustomer_def customers_insertOne_def customer_validator_def
        no_faults_def Let_def)
  have second: "createOrUpdateCustomer no_faults now2 e
       (s\<lparr>customersCollection := customersCollection s
            @ [\<lparr>c_email = e, createdAt = now1, updatedAt = now1\<rparr>]\<rparr>) =
      (Inr (Some \<lparr>c_email = e, createdAt = now1, updatedAt = now2\<rparr>),
       s\<lparr>customersCollection := customersCollection s
            @ [\<lparr>c_email = e, createdAt = now1, updatedAt = now2\<rparr>]\<rparr>)"
    using assms(1)
    by (simp add: createOrUpdateCustomer_def customers_insertOne_def customers_updateOne_def
        customers_findOne_def customer_validator_def no_faults_def Let_def
        find_append_none [OF none] update_first_append_none [OF none])
  show ?thesis
    using assms(3)
    by (simp add: Let_def first second customers_for_def filter_none [OF none])
qed

theorem createOrUpdateCustomer_upsert_witness:
  "email_pattern ''ada@example.com''
   \<and> ''ada@example.com'' \<notin> set (map c_email (customersCollection empty_db))
   \<and> (1704067201000 :: int) < 1704153601000
   \<and> createOrUpdateCustomer no_faults 1704067201000 ''ada@example.com'' empty_db
       = (Inr (Some \<lparr>c_email = ''ada@example.com'', createdAt = 1704067201000,
                      updatedAt = 1704067201000\<rparr>),
          empty_db\<lparr>customersCollection :=
            [\<lparr>c_email = ''ada@example.com'', createdAt = 1704067201000,
              updatedAt = 1704067201000\<rparr>]\<rparr>)
   \<and> createOrUpdateCustomer no_faults 1704153601000 ''ada@example.com''
        (empty_db\<lparr>customersCollection :=
            [\<lparr>c_email = ''ada@example.com'', createdAt = 1704067201000,
              updatedAt = 1704067201000\<rparr>]\<rparr>)
       = (Inr (Some \<lparr>c_email = ''ada@example.com'', createdAt = 1704067201000,
                      updatedAt = 1704153601000\<rparr>),
          empty_db\<lparr>customersCollection :=
            [\<lparr>c_email = ''ada@example.com'', createdAt = 1704067201000,
              updatedAt = 1704153601000\<rparr>]\<rparr>)"
proof -
  have h1: "email_pattern ''ada@example.com''" by (rule email_pattern_example)
  have h2: "''ada@example.com'' \<notin> set (map c_email (customersCollection empty_db))"
    by (simp add: empty_db_def)
  have h3: "(1704067201000 :: int) < 1704153601000" by simp
  show ?thesis
    using h1 h2 h3 createOrUpdateCustomer_upsert [OF h1 h2 h3]
    by (simp add: Let_def empty_db_def)
qed

section \<open>Amounts that are not positive\<close>

text \<open>
  C10, as stated, at a concrete event. The claim says that a payment-succeeded event
  carrying a non-positive amount still yields a one-day entitlement window for the
  email. An event with amount -500 leaves no ActiveSubscription record: the Transaction
  validator (\<^verbatim>\<open>minimum: 0\<close>) rejects the ledger insert, and the entitlement step is not
  reached.
\<close>

theorem negative_amount_counterexample:
  "active_for ''ada@example.com''
     (deliver utc_zone [(no_faults, 1704067201000,
                charge_success ''ref_1'' ''ada@example.com'' (Num (- 500)) 1704067200000)]
        empty_db) = []"
  by code_simp

text \<open>
  C10, amended. The expiry calculator is total over all numeric amounts: for every amount
  outside 500, 11000 and 25000, zero and negative amounts included, it returns what it
  returns for the one-day tier: the date one day after paid_on in local time, which is
  paid_on + 1 day of 86400000 ms where paid_on is a valid date, the host's time zone has
  the same offset at both dates (as on a host in UTC) and the result is within the range
  of time values. Under these conditions a payment-succeeded event with a schema-valid
  email and no storage failure that carries amount zero appends an ActiveSubscription
  record for that email with expires_on = paid_on + 1 day. One that carries a negative
  amount writes no ActiveSubscription record, since the Transaction validator
  (\<^verbatim>\<open>minimum: 0\<close>) rejects the ledger insert before the entitlement step.
\<close>

theorem nonpositive_amount_window:
  assumes "email_pattern e"
  shows "(amt \<notin> {Num 500, Num 11000, Num 25000}
            \<longrightarrow> calculateExpiryDate tz amt paid = calculateExpiryDate tz (Num 500) paid)
     \<and> (amt \<notin> {Num 500, Num 11000, Num 25000}
          \<and> valid_time paid \<and> same_offset tz paid 1 \<and> valid_time (paid + 1 * msPerDay)
            \<longrightarrow> calculateExpiryDate tz amt paid = TimeValue (paid + 1 * msPerDay))
     \<and> (le_zero amt \<longrightarrow> amt \<notin> {Num 500, Num 11000, Num 25000})
     \<and> (amt = Num 0
          \<and> valid_time paid \<and> same_offset tz paid 1 \<and> valid_time (paid + 1 * msPerDay)
            \<longrightarrow> active_users (deliver tz [(no_faults, now, charge_success ref e amt paid)] s)
                = active_users s @ [\<lparr>a_email = e, a_paid_on = paid,
                                      a_expires_on = TimeValue (paid + 1 * msPerDay),
                                      a_service = ''SKYNET''\<rparr>])
     \<and> (le_zero amt \<and> amt \<noteq> Num 0
            \<longrightarrow> active_users (deliver tz [(no_faults, now, charge_success ref e amt paid)] s)
                = active_users s)"
proof (intro conjI impI)
  show "calculateExpiryDate tz amt paid = calculateExpiryDate tz (Num 500) paid"
    if "amt \<notin> {Num 500, Num 11000, Num 25000}"
    using that by (simp add: calculateExpiryDate_def tier_days_def)
  show "calculateExpiryDate tz amt paid = TimeValue (paid + 1 * msPerDay)"
    if c: "amt \<notin> {Num 500, Num 11000, Num 25000}
          \<and> valid_time paid \<and> same_offset tz paid 1 \<and> valid_time (paid + 1 * msPerDay)"
  proof -
    have t: "tier_days amt = 1" using c by (simp add: tier_days_def)
    show ?thesis
      using c calculateExpiryDate_same_offset [of paid tz amt] by (simp add: tier_days_def)
  qed
  show "amt \<notin> {Num 500, Num 11000, Num 25000}" if "le_zero amt"
    using that by (cases amt) auto
  show "active_users (deliver tz [(no_faults, now, charge_success ref e amt paid)] s)
          = active_users s @ [\<lparr>a_email = e, a_paid_on = paid,
                                a_expires_on = TimeValue (paid + 1 * msPerDay),
                                a_service = ''SKYNET''\<rparr>]"
    if c: "amt = Num 0
          \<and> valid_time paid \<and> same_offset tz paid 1 \<and> valid_time (paid + 1 * msPerDay)"
  proof -
    have m: "minimum_zero amt" using c by simp
    have t: "tier_days amt = 1" using c by (simp add: tier_days_def)
    have x: "calculateExpiryDate tz amt paid = TimeValue (paid + 1 * msPerDay)"
      using c calculateExpiryDate_same_offset [of paid tz amt] by (simp add: tier_days_def)
    show ?thesis
      using x by (simp add: deliver_success(2) [OF assms m] entitlement_def)
  qed
  show "active_users (deliver tz [(no_faults, now, charge_success ref e amt paid)] s)
          = active_users s"
    if neg: "le_zero amt \<and> amt \<noteq> Num 0"
  proof -
    have m: "\<not> minimum_zero amt" using neg by (cases amt) auto
    define s1 where "s1 = snd (createOrUpdateCustomer no_faults now e s)"
    obtain r where c: "createOrUpdateCustomer no_faults now e s = (Inr r, s1)"
      unfolding s1_def using assms by (rule createOrUpdateCustomer_result)
    have f: "active_users s1 = active_users s"
      using createOrUpdateCustomer_frame [of no_faults now e s] by (simp add: s1_def)
    have "snd (webhook_paystack tz no_faults now (charge_success ref e amt paid) s) = s1"
      using m
      by (simp add: webhook_paystack_def handleSuccessfulPayment_def payment_steps_def
          charge_success_def c createTransaction_def transactions_insertOne_def
          transaction_validator_def no_faults_apply Let_def)
    then show ?thesis
      using f by simp
  qed
qed

theorem nonpositive_amount_window_witness:
  "email_pattern ''ada@example.com''
   \<and> valid_time 1704067200000 \<and> same_offset utc_zone 1704067200000 1
   \<and> valid_time (1704067200000 + 1 * msPerDay)
   \<and> Num 999 \<notin> {Num 500, Num 11000, Num 25000}
   \<and> calculateExpiryDate utc_zone (Num 999) 1704067200000 = TimeValue 1704153600000
   \<and> le_zero (Num 0) \<and> Num 0 \<notin> {Num 500, Num 11000, Num 25000}
   \<and> calculateExpiryDate utc_zone (Num 0) 1704067200000 = TimeValue 1704153600000
   \<and> active_users (deliver utc_zone [(no_faults, 1704067201000,
          charge_success ''ref_1'' ''ada@example.com'' (Num 0) 1704067200000)] empty_db)
       = [\<lparr>a_email = ''ada@example.com'', a_paid_on = 1704067200000,
            a_expires_on = TimeValue 1704153600000, a_service = ''SKYNET''\<rparr>]
   \<and> le_zero (Num (- 500)) \<and> Num (- 500) \<noteq> Num 0
   \<and> calculateExpiryDate utc_zone (Num (- 500)) 1704067200000 = TimeValue 1704153600000
   \<and> active_users (deliver utc_zone [(no_faults, 1704067201000,
          charge_success ''ref_1'' ''ada@example.com'' (Num (- 500)) 1704067200000)] empty_db)
       = []"
proof -
  have h1: "email_pattern ''ada@example.com''" by (rule email_pattern_example)
  have h2: "le_zero (Num 0)" by simp
  have h3: "le_zero (Num (- 500)) \<and> Num (- 500) \<noteq> Num 0" by simp
  have h4: "Num 999 \<notin> {Num 500, Num 11000, Num 25000}" by simp
  have h5: "valid_time 1704067200000 \<and> same_offset utc_zone 1704067200000 1
              \<and> valid_time (1704067200000 + 1 * msPerDay)"
    by (simp add: same_offset_def utc_zone_def valid_time_def maxTime_def msPerDay_def)
  show ?thesis
    using h1 h2 h3 h4 h5
      nonpositive_amount_window [OF h1, of "Num 999" utc_zone 1704067200000 1704067201000
        "''ref_1''" empty_db]
      nonpositive_amount_window [OF h1, of "Num 0" utc_zone 1704067200000 1704067201000
        "''ref_1''" empty_db]
      nonpositive_amount_window [OF h1, of "Num (- 500)" utc_zone 1704067200000 1704067201000
        "''ref_1''" empty_db]
    by (auto simp: msPerDay_def empty_db_def)
qed

end
